theory Spec2Isabelle
  imports Complex_Main "HOL-Library.Log_Nat" "HOL-Library.Word"
begin

section \<open>JavaScript numbers\<close>

text \<open>
  A TypeScript \<open>number\<close> is an IEEE-754 binary64 value. A finite one is given by the
  rational it denotes (the sign of zero is not kept: the code below never tells \<open>-0\<close>
  from \<open>0\<close>); the three special values are constructors of their own.
\<close>

datatype number = Finite rat | PosInfinity | NegInfinity | NaN

definition pow2 :: "int \<Rightarrow> rat" where
  "pow2 e = (if 0 \<le> e then 2 ^ nat e else 1 / 2 ^ nat (- e))"

text \<open>\<open>ilog2 r\<close> is the binary exponent of a positive rational: \<open>2^l \<le> r < 2^(l+1)\<close>.\<close>

definition ilog2 :: "rat \<Rightarrow> int" where
  "ilog2 r = (let (p, q) = quotient_of r; d = bitlen p - bitlen q
              in if pow2 d \<le> r then d else d - 1)"

definition round_half_even :: "rat \<Rightarrow> int" where
  "round_half_even x = (let f = \<lfloor>x\<rfloor>; d = x - of_int f
     in if d < 1 / 2 then f else if 1 / 2 < d then f + 1 else if even f then f else f + 1)"

text \<open>
  Rounding of a positive rational to 53 significant bits, ties to even, with the exponent
  of the last place never below \<open>-1074\<close> (the subnormal range).
\<close>

definition round_pos :: "rat \<Rightarrow> rat" where
  "round_pos r = (let e = max (ilog2 r - 52) (- 1074)
                  in of_int (round_half_even (r / pow2 e)) * pow2 e)"

text \<open>\<open>fl r\<close> is the binary64 value nearest to \<open>r\<close>; a magnitude that rounds to \<open>2^1024\<close> overflows.\<close>

definition fl :: "rat \<Rightarrow> number" where
  "fl r = (if r = 0 then Finite 0
           else if 0 < r then (let v = round_pos r in if pow2 1024 \<le> v then PosInfinity else Finite v)
           else (let v = round_pos (- r) in if pow2 1024 \<le> v then NegInfinity else Finite (- v)))"

definition is_double :: "number \<Rightarrow> bool" where
  "is_double x = (case x of Finite r \<Rightarrow> fl r = Finite r | _ \<Rightarrow> True)"

text \<open>The operator \<open>*\<close> on numbers.\<close>

fun number_mul :: "number \<Rightarrow> number \<Rightarrow> number" where
  "number_mul NaN y = NaN"
| "number_mul x NaN = NaN"
| "number_mul (Finite a) (Finite b) = fl (a * b)"
| "number_mul (Finite a) PosInfinity = (if a = 0 then NaN else if 0 < a then PosInfinity else NegInfinity)"
| "number_mul (Finite a) NegInfinity = (if a = 0 then NaN else if 0 < a then NegInfinity else PosInfinity)"
| "number_mul PosInfinity (Finite b) = (if b = 0 then NaN else if 0 < b then PosInfinity else NegInfinity)"
| "number_mul NegInfinity (Finite b) = (if b = 0 then NaN else if 0 < b then NegInfinity else PosInfinity)"
| "number_mul PosInfinity PosInfinity = PosInfinity"
| "number_mul PosInfinity NegInfinity = NegInfinity"
| "number_mul NegInfinity PosInfinity = NegInfinity"
| "number_mul NegInfinity NegInfinity = PosInfinity"

text \<open>The operator \<open>/\<close> on numbers (a zero divisor is taken as \<open>+0\<close>).\<close>

fun number_div :: "number \<Rightarrow> number \<Rightarrow> number" where
  "number_div NaN y = NaN"
| "number_div x NaN = NaN"
| "number_div (Finite a) (Finite b) =
     (if b = 0 then (if a = 0 then NaN else if 0 < a then PosInfinity else NegInfinity)
      else fl (a / b))"
| "number_div (Finite a) PosInfinity = Finite 0"
| "number_div (Finite a) NegInfinity = Finite 0"
| "number_div PosInfinity (Finite b) = (if 0 \<le> b then PosInfinity else NegInfinity)"
| "number_div NegInfinity (Finite b) = (if 0 \<le> b then NegInfinity else PosInfinity)"
| "number_div PosInfinity PosInfinity = NaN"
| "number_div PosInfinity NegInfinity = NaN"
| "number_div NegInfinity PosInfinity = NaN"
| "number_div NegInfinity NegInfinity = NaN"

text \<open>\<open>Math.floor\<close>.\<close>

fun math_floor :: "number \<Rightarrow> number" where
  "math_floor (Finite r) = Finite (of_int \<lfloor>r\<rfloor>)"
| "math_floor x = x"

text \<open>
  \<open>Math.pow\<close> at a rational base and a natural exponent: the correctly rounded power
  (exact for \<open>Math.pow(10, 6)\<close>).
\<close>

definition math_pow :: "rat \<Rightarrow> nat \<Rightarrow> number" where
  "math_pow b n = fl (b ^ n)"

section \<open>Errors and data\<close>

text \<open>
  Every exception of the source is a value of \<open>error\<close>; the code never inspects the
  exception it catches, so the constructors only name the kinds the specification lists,
  and \<open>RangeError\<close> for \<open>BigInt\<close> of a number that is not an integer.
\<close>

datatype error = InvalidAddress | InvalidSecretKey | NetworkUnavailable | AccountNotFound
  | SubmissionRejected | SigningFailure | RangeError | TypeError

type_synonym bytes = "8 word list"

type_synonym PublicKey = bytes

text \<open>\<open>BigInt(x)\<close>: throws a \<open>RangeError\<close> unless \<open>x\<close> is an integer.\<close>

fun BigInt :: "number \<Rightarrow> error + int" where
  "BigInt (Finite r) = (if of_int \<lfloor>r\<rfloor> = r then Inr \<lfloor>r\<rfloor> else Inl RangeError)"
| "BigInt x = Inl RangeError"

datatype NetworkType = MainnetBeta | Testnet | Devnet

record Keypair =
  kp_publicKey :: PublicKey
  kp_secretKey :: bytes

record WalletInfo =
  publicKey :: string
  secretKey :: string
  keypair :: Keypair

text \<open>The instructions the two builders put into a transaction, with the arguments the code passes.\<close>

datatype ProgramId = TOKEN_PROGRAM_ID | ASSOCIATED_TOKEN_PROGRAM_ID

datatype instruction =
    SystemTransfer (fromPubkey: PublicKey) (toPubkey: PublicKey) (lamports: number)
  | CreateAssociatedTokenAccount (payer: PublicKey) (associatedToken: PublicKey)
      (owner: PublicKey) (mint: PublicKey) ProgramId ProgramId
  | TokenTransfer (source: PublicKey) (destination: PublicKey) (authority: PublicKey)
      (amount: int) (multiSigners: "PublicKey list") ProgramId

record Transaction =
  instructions :: "instruction list"
  recentBlockhash :: "string option"
  feePayer :: "PublicKey option"
  tx_signature :: "bytes option"

record TransactionData =
  transaction :: bytes
  signature :: string
  rawTransaction :: Transaction

definition new_Transaction :: Transaction where
  "new_Transaction = \<lparr>instructions = [], recentBlockhash = None, feePayer = None, tx_signature = None\<rparr>"

definition add :: "Transaction \<Rightarrow> instruction \<Rightarrow> Transaction" where
  "add t i = t\<lparr>instructions := instructions t @ [i]\<rparr>"

section \<open>The external collaborators\<close>

text \<open>
  The functions of \<open>@solana/web3.js\<close>, \<open>@solana/spl-token\<close> and \<open>bs58\<close> that the
  client calls are parameters: \<open>seed\<close> is the randomness \<open>Keypair.generate\<close> consumes.
\<close>

record Lib =
  newPublicKey :: "string \<Rightarrow> error + PublicKey"
  toString :: "PublicKey \<Rightarrow> string"
  getAssociatedTokenAddress :: "PublicKey \<Rightarrow> PublicKey \<Rightarrow> error + PublicKey"
  tx_sign :: "Transaction \<Rightarrow> Keypair \<Rightarrow> error + bytes"
  serialize :: "Transaction \<Rightarrow> error + bytes"
  bs58_encode :: "bytes \<Rightarrow> string"
  bs58_decode :: "string \<Rightarrow> error + bytes"
  generate :: "bytes \<Rightarrow> Keypair"
  fromSecretKey :: "bytes \<Rightarrow> error + Keypair"

text \<open>
  The connection to the ledger: each call reads and changes the remote world \<open>'w\<close> and
  either fails or returns. \<open>getTokenAccountBalance\<close> returns the integer whose decimal
  string is the \<open>amount\<close> field of the reply.
\<close>

record 'w Connection =
  getLatestBlockhash :: "'w \<Rightarrow> (error + string) \<times> 'w"
  getAccountInfo :: "PublicKey \<Rightarrow> 'w \<Rightarrow> (error + bytes option) \<times> 'w"
  sendRawTransaction :: "bytes \<Rightarrow> 'w \<Rightarrow> (error + string) \<times> 'w"
  getTokenAccountBalance :: "PublicKey \<Rightarrow> 'w \<Rightarrow> (error + nat) \<times> 'w"

record 'w SolanaClient =
  network :: NetworkType
  connection :: "'w Connection"

text \<open>
  What an invocation does to the outside is recorded in a trace, empty when it starts:
  the builds of the grind loop, the evaluations of the predicate, the calls of the
  broadcast capability with their outcome, and the delays in milliseconds.
\<close>

datatype event =
    BuildOk TransactionData
  | BuildFailed error
  | PredicateEval string bool
  | Broadcast bytes "error + string"
  | Delay nat

record 'w state =
  world :: 'w
  trace :: "event list"

definition USDC_MINT :: "NetworkType \<Rightarrow> string" where
  "USDC_MINT n = (case n of
      MainnetBeta \<Rightarrow> ''EPjFWdd5AufqSSqeM2qN1xzybapC8G4wEGGkZwyTDt1v''
    | Testnet \<Rightarrow> ''4zMMC9srt5Ri5X14GAgXhaHii3GnPAEERYPJgZJDncDU''
    | Devnet \<Rightarrow> ''4zMMC9srt5Ri5X14GAgXhaHii3GnPAEERYPJgZJDncDU'')"

definition USDC_DECIMALS :: nat where
  "USDC_DECIMALS = 6"

section \<open>The client\<close>

definition createWallet :: "Lib \<Rightarrow> bytes \<Rightarrow> WalletInfo" where
  "createWallet lib seed =
     (let wallet = generate lib seed
      in \<lparr>publicKey = toString lib (kp_publicKey wallet),
          secretKey = bs58_encode lib (kp_secretKey wallet),
          keypair = wallet\<rparr>)"

definition loadWalletFromSecretKey :: "Lib \<Rightarrow> string \<Rightarrow> error + WalletInfo" where
  "loadWalletFromSecretKey lib sk =
     (case bs58_decode lib sk of
        Inl e \<Rightarrow> Inl e
      | Inr decodedKey \<Rightarrow>
          (case fromSecretKey lib decodedKey of
             Inl e \<Rightarrow> Inl e
           | Inr wallet \<Rightarrow>
               Inr \<lparr>publicKey = toString lib (kp_publicKey wallet),
                    secretKey = sk,
                    keypair = wallet\<rparr>))"

text \<open>
  The tail shared by the two builders: fetch the blockhash, set it and the fee payer,
  sign (\<open>tx_sign\<close> computes the signature bytes, which \<open>transaction.sign\<close> stores in
  the transaction), encode the signature and serialize.
\<close>

definition finishTransaction ::
  "Lib \<Rightarrow> 'w SolanaClient \<Rightarrow> WalletInfo \<Rightarrow> Transaction \<Rightarrow> 'w \<Rightarrow> (error + TransactionData) \<times> 'w" where
  "finishTransaction lib c wallet t w =
     (case getLatestBlockhash (connection c) w of
        (Inl e, w1) \<Rightarrow> (Inl e, w1)
      | (Inr blockhash, w1) \<Rightarrow>
          (let t1 = t\<lparr>recentBlockhash := Some blockhash,
                      feePayer := Some (kp_publicKey (keypair wallet))\<rparr>
           in case tx_sign lib t1 (keypair wallet) of
                Inl e \<Rightarrow> (Inl e, w1)
              | Inr sg \<Rightarrow>
                  (let t2 = t1\<lparr>tx_signature := Some sg\<rparr>;
                       sig = bs58_encode lib sg
                   in case serialize lib t2 of
                        Inl e \<Rightarrow> (Inl e, w1)
                      | Inr serializedTransaction \<Rightarrow>
                          (Inr \<lparr>transaction = serializedTransaction,
                                signature = sig,
                                rawTransaction = t2\<rparr>, w1))))"

definition createAndSignTransaction ::
  "Lib \<Rightarrow> 'w SolanaClient \<Rightarrow> WalletInfo \<Rightarrow> string \<Rightarrow> number \<Rightarrow> 'w \<Rightarrow> (error + TransactionData) \<times> 'w" where
  "createAndSignTransaction lib c wallet recipientAddress lamps w =
     (case newPublicKey lib recipientAddress of
        Inl e \<Rightarrow> (Inl e, w)
      | Inr recipientPubKey \<Rightarrow>
          finishTransaction lib c wallet
            (add new_Transaction
               (SystemTransfer (kp_publicKey (keypair wallet)) recipientPubKey lamps)) w)"

definition getUsdcMint :: "'w SolanaClient \<Rightarrow> string" where
  "getUsdcMint c = USDC_MINT (network c)"

definition tokenAmount :: "number \<Rightarrow> number" where
  "tokenAmount amt = math_floor (number_mul amt (math_pow 10 USDC_DECIMALS))"

definition createAndSignTokenTransaction ::
  "Lib \<Rightarrow> 'w SolanaClient \<Rightarrow> WalletInfo \<Rightarrow> string \<Rightarrow> number \<Rightarrow> 'w \<Rightarrow> (error + TransactionData) \<times> 'w" where
  "createAndSignTokenTransaction lib c wallet recipientAddress amt w =
     (case newPublicKey lib (getUsdcMint c) of
        Inl e \<Rightarrow> (Inl e, w)
      | Inr mintPublicKey \<Rightarrow>
     (case newPublicKey lib recipientAddress of
        Inl e \<Rightarrow> (Inl e, w)
      | Inr recipientPublicKey \<Rightarrow>
     (case getAssociatedTokenAddress lib mintPublicKey (kp_publicKey (keypair wallet)) of
        Inl e \<Rightarrow> (Inl e, w)
      | Inr senderTokenAccount \<Rightarrow>
     (case getAssociatedTokenAddress lib mintPublicKey recipientPublicKey of
        Inl e \<Rightarrow> (Inl e, w)
      | Inr recipientTokenAccount \<Rightarrow>
     (case getAccountInfo (connection c) recipientTokenAccount w of
        (Inl e, w1) \<Rightarrow> (Inl e, w1)
      | (Inr recipientAccountInfo, w1) \<Rightarrow>
          (let t0 = new_Transaction;
               t1 = (if recipientAccountInfo = None
                     then add t0 (CreateAssociatedTokenAccount
                            (kp_publicKey (keypair wallet)) recipientTokenAccount
                            recipientPublicKey mintPublicKey
                            TOKEN_PROGRAM_ID ASSOCIATED_TOKEN_PROGRAM_ID)
                     else t0)
           in case BigInt (tokenAmount amt) of
                Inl e \<Rightarrow> (Inl e, w1)
              | Inr units \<Rightarrow>
                  finishTransaction lib c wallet
                    (add t1 (TokenTransfer senderTokenAccount recipientTokenAccount
                       (kp_publicKey (keypair wallet)) units [] TOKEN_PROGRAM_ID)) w1))))))"

text \<open>The call \<open>this.connection.sendRawTransaction\<close>, recorded in the trace.\<close>

definition broadcast :: "'w SolanaClient \<Rightarrow> bytes \<Rightarrow> 'w state \<Rightarrow> (error + string) \<times> 'w state" where
  "broadcast c b st =
     (case sendRawTransaction (connection c) b (world st) of
        (r, w1) \<Rightarrow> (r, \<lparr>world = w1, trace = trace st @ [Broadcast b r]\<rparr>))"

text \<open>\<open>checkSignatureAndSubmit\<close> of \<open>src/index.ts\<close>: one parameter, no predicate.\<close>

definition checkSignatureAndSubmit ::
  "'w SolanaClient \<Rightarrow> TransactionData \<Rightarrow> 'w \<Rightarrow> (error + string option) \<times> 'w state" where
  "checkSignatureAndSubmit c txd w =
     (case broadcast c (transaction txd) \<lparr>world = w, trace = []\<rparr> of
        (Inl e, st1) \<Rightarrow> (Inl e, st1)
      | (Inr sig, st1) \<Rightarrow> (Inr (Some sig), st1))"

text \<open>\<open>checkSignatureAndSubmit\<close> of the second client file, which takes the predicate.\<close>

definition checkSignatureAndSubmit_logic ::
  "'w SolanaClient \<Rightarrow> TransactionData \<Rightarrow> (string \<Rightarrow> bool) \<Rightarrow> 'w
    \<Rightarrow> (error + string option) \<times> 'w state" where
  "checkSignatureAndSubmit_logic c txd logicFunction w =
     (let shouldSubmit = logicFunction (signature txd);
          st0 = \<lparr>world = w, trace = [PredicateEval (signature txd) shouldSubmit]\<rparr>
      in if shouldSubmit
         then (case broadcast c (transaction txd) st0 of
                 (Inl e, st1) \<Rightarrow> (Inl e, st1)
               | (Inr sig, st1) \<Rightarrow> (Inr (Some sig), st1))
         else (Inr None, st0))"

definition getTokenBalance ::
  "Lib \<Rightarrow> 'w SolanaClient \<Rightarrow> string \<Rightarrow> 'w \<Rightarrow> (error + number) \<times> 'w" where
  "getTokenBalance lib c address w =
     (case newPublicKey lib address of
        Inl e \<Rightarrow> (Inl e, w)
      | Inr pk \<Rightarrow>
     (case newPublicKey lib (getUsdcMint c) of
        Inl e \<Rightarrow> (Inl e, w)
      | Inr mintPublicKey \<Rightarrow>
     (case getAssociatedTokenAddress lib mintPublicKey pk of
        Inl e \<Rightarrow> (Inl e, w)
      | Inr tokenAccount \<Rightarrow>
     (case getTokenAccountBalance (connection c) tokenAccount w of
        (Inl e, w1) \<Rightarrow> (Inr (Finite 0), w1)
      | (Inr amt, w1) \<Rightarrow>
          (Inr (number_div (fl (of_nat amt)) (math_pow 10 USDC_DECIMALS)), w1)))))"

record GrindResult =
  txData :: "TransactionData option"
  res_signature :: "string option"

definition build ::
  "Lib \<Rightarrow> 'w SolanaClient \<Rightarrow> WalletInfo \<Rightarrow> string \<Rightarrow> number \<Rightarrow> bool \<Rightarrow> 'w \<Rightarrow> (error + TransactionData) \<times> 'w" where
  "build lib c wallet recipientAddress amt isToken w =
     (if isToken then createAndSignTokenTransaction lib c wallet recipientAddress amt w
      else createAndSignTransaction lib c wallet recipientAddress amt w)"

definition log :: "event list \<Rightarrow> 'w state \<Rightarrow> 'w state" where
  "log es st = st\<lparr>trace := trace st @ es\<rparr>"

text \<open>
  The \<open>while\<close> loop of \<open>createUntilLogicMatches\<close>, with its variables \<open>attempts\<close> and
  \<open>txData\<close> as arguments; \<open>txData\<close> is \<open>None\<close> until a build has assigned it. The
  budget and the counter are natural numbers. The body starts with \<open>attempts++\<close>, so
  what follows it sees \<open>attempts + 1\<close>. The \<open>try\<close> block spans the build, the predicate
  and the broadcast: a failure of any of them reaches the \<open>catch\<close>, which waits 1000 ms and
  lets the loop go on.
\<close>

function createUntilLogicMatches_loop ::
  "Lib \<Rightarrow> 'w SolanaClient \<Rightarrow> WalletInfo \<Rightarrow> string \<Rightarrow> number \<Rightarrow> (string \<Rightarrow> bool) \<Rightarrow> bool
    \<Rightarrow> nat \<Rightarrow> nat \<Rightarrow> TransactionData option \<Rightarrow> 'w state \<Rightarrow> GrindResult \<times> 'w state" where
  "createUntilLogicMatches_loop lib c wallet recipientAddress amt logicFunction isToken
       maxAttempts attempts txd st =
     (if attempts < maxAttempts then
        (case build lib c wallet recipientAddress amt isToken (world st) of
           (Inl e, w1) \<Rightarrow>
             createUntilLogicMatches_loop lib c wallet recipientAddress amt logicFunction isToken
               maxAttempts (attempts + 1) txd
               (log [BuildFailed e, Delay 1000] (st\<lparr>world := w1\<rparr>))
         | (Inr td, w1) \<Rightarrow>
             (let shouldSubmit = logicFunction (signature td);
                  st1 = log [BuildOk td, PredicateEval (signature td) shouldSubmit] (st\<lparr>world := w1\<rparr>)
              in if shouldSubmit then
                   (case broadcast c (transaction td) st1 of
                      (Inl e, st2) \<Rightarrow>
                        createUntilLogicMatches_loop lib c wallet recipientAddress amt logicFunction
                          isToken maxAttempts (attempts + 1) (Some td) (log [Delay 1000] st2)
                    | (Inr sig, st2) \<Rightarrow> (\<lparr>txData = Some td, res_signature = Some sig\<rparr>, st2))
                 else
                   createUntilLogicMatches_loop lib c wallet recipientAddress amt logicFunction
                     isToken maxAttempts (attempts + 1) (Some td)
                     (log (if (attempts + 1) mod 10 = 0 then [Delay 10, Delay 500] else [Delay 10]) st1)))
      else (\<lparr>txData = txd, res_signature = None\<rparr>, st))"
  by pat_completeness auto
termination
  by (relation "measure (\<lambda>(lib, c, wallet, recipientAddress, amt, logicFunction, isToken,
        maxAttempts, attempts, txd, st). maxAttempts - attempts)") auto

definition createUntilLogicMatches ::
  "Lib \<Rightarrow> 'w SolanaClient \<Rightarrow> WalletInfo \<Rightarrow> string \<Rightarrow> number \<Rightarrow> (string \<Rightarrow> bool) \<Rightarrow> bool
    \<Rightarrow> nat \<Rightarrow> 'w \<Rightarrow> GrindResult \<times> 'w state" where
  "createUntilLogicMatches lib c wallet recipientAddress amt logicFunction isToken maxAttempts w =
     createUntilLogicMatches_loop lib c wallet recipientAddress amt logicFunction isToken
       maxAttempts 0 None \<lparr>world = w, trace = []\<rparr>"


section \<open>Reading a trace\<close>

fun is_build :: "event \<Rightarrow> bool" where
  "is_build (BuildOk td) = True"
| "is_build (BuildFailed e) = True"
| "is_build ev = False"

fun is_build_ok :: "event \<Rightarrow> bool" where
  "is_build_ok (BuildOk td) = True"
| "is_build_ok ev = False"

fun is_build_failed :: "event \<Rightarrow> bool" where
  "is_build_failed (BuildFailed e) = True"
| "is_build_failed ev = False"

fun is_predicate_eval :: "event \<Rightarrow> bool" where
  "is_predicate_eval (PredicateEval s b) = True"
| "is_predicate_eval ev = False"

fun is_broadcast :: "event \<Rightarrow> bool" where
  "is_broadcast (Broadcast b r) = True"
| "is_broadcast ev = False"


definition count :: "(event \<Rightarrow> bool) \<Rightarrow> event list \<Rightarrow> nat" where
  "count P es = length (filter P es)"




text \<open>Every failed build is followed at once by the delay of 1000 ms.\<close>

fun failures_delayed :: "event list \<Rightarrow> bool" where
  "failures_delayed (BuildFailed e # Delay ms # es) = (ms = 1000 \<and> failures_delayed es)"
| "failures_delayed (BuildFailed e # es) = False"
| "failures_delayed (ev # es) = failures_delayed es"
| "failures_delayed [] = True"

text \<open>The value of the variable \<open>txData\<close> after the builds of a trace.\<close>

fun last_built :: "TransactionData option \<Rightarrow> event list \<Rightarrow> TransactionData option" where
  "last_built txd [] = txd"
| "last_built txd (BuildOk td # es) = last_built (Some td) es"
| "last_built txd (ev # es) = last_built txd es"

section \<open>A test double\<close>

text \<open>
  The base-58 text encoding of the \<open>bs58\<close> package (Bitcoin alphabet): a leading zero
  byte is the digit \<open>1\<close>, the rest is the big-endian number in base 58.
\<close>

definition alphabet58 :: string where
  "alphabet58 = ''123456789ABCDEFGHJKLMNPQRSTUVWXYZabcdefghijkmnopqrstuvwxyz''"

definition int_of_bytes :: "bytes \<Rightarrow> int" where
  "int_of_bytes bs = foldl (\<lambda>a b. a * 256 + uint b) 0 bs"

function digits :: "int \<Rightarrow> int \<Rightarrow> int list" where
  "digits b n = (if n \<le> 0 \<or> b < 2 then [] else digits b (n div b) @ [n mod b])"
  by pat_completeness auto
termination
  by (relation "measure (\<lambda>(b, n). nat n)") (auto intro!: int_div_less_self)

fun index_of :: "'a list \<Rightarrow> 'a \<Rightarrow> int" where
  "index_of [] x = 0"
| "index_of (y # ys) x = (if x = y then 0 else 1 + index_of ys x)"

definition base58_encode :: "bytes \<Rightarrow> string" where
  "base58_encode bs =
     replicate (length (takeWhile (\<lambda>b. b = 0) bs)) (CHR ''1'')
     @ map (\<lambda>d. alphabet58 ! nat d) (digits 58 (int_of_bytes bs))"

definition base58_decode :: "string \<Rightarrow> error + bytes" where
  "base58_decode s =
     (if list_all (\<lambda>ch. ch \<in> set alphabet58) s
      then Inr (replicate (length (takeWhile (\<lambda>ch. ch = CHR ''1'') s)) 0
                @ map of_int (digits 256 (foldl (\<lambda>a ch. a * 58 + index_of alphabet58 ch) 0 s)))
      else Inl InvalidSecretKey)"

text \<open>The number that a list of digits denotes in base \<open>b\<close>, most significant digit first.\<close>

definition value_of :: "int \<Rightarrow> int list \<Rightarrow> int" where
  "value_of b ds = foldl (\<lambda>a d. a * b + d) 0 ds"

text \<open>
  A scripted ledger: each capability answers with the next entry of its script, and with
  \<open>NetworkUnavailable\<close> once the script is used up.
\<close>

record mock_world =
  blockhashes :: "(error + string) list"
  accountInfos :: "(error + bytes option) list"
  submissions :: "(error + string) list"
  balances :: "(error + nat) list"

definition mock_connection :: "mock_world Connection" where
  "mock_connection =
     \<lparr>getLatestBlockhash = (\<lambda>w. case blockhashes w of
          [] \<Rightarrow> (Inl NetworkUnavailable, w)
        | r # rs \<Rightarrow> (r, w\<lparr>blockhashes := rs\<rparr>)),
      getAccountInfo = (\<lambda>a w. case accountInfos w of
          [] \<Rightarrow> (Inl NetworkUnavailable, w)
        | r # rs \<Rightarrow> (r, w\<lparr>accountInfos := rs\<rparr>)),
      sendRawTransaction = (\<lambda>b w. case submissions w of
          [] \<Rightarrow> (Inl NetworkUnavailable, w)
        | r # rs \<Rightarrow> (r, w\<lparr>submissions := rs\<rparr>)),
      getTokenAccountBalance = (\<lambda>a w. case balances w of
          [] \<Rightarrow> (Inl NetworkUnavailable, w)
        | r # rs \<Rightarrow> (r, w\<lparr>balances := rs\<rparr>))\<rparr>"

definition mock_client :: "mock_world SolanaClient" where
  "mock_client = \<lparr>network = Devnet, connection = mock_connection\<rparr>"

definition derive :: "PublicKey \<Rightarrow> PublicKey \<Rightarrow> PublicKey" where
  "derive m ownr = map (\<lambda>(a, b). a + b) (zip m ownr)"

text \<open>
  Library stand-ins: addresses are base-58 texts of 32 bytes, a keypair is a 32-byte seed
  followed by its public key (here the seed reversed), a signature is made of the
  blockhash and the first bytes of the secret key.
\<close>

definition mock_lib :: Lib where
  "mock_lib =
     \<lparr>newPublicKey = (\<lambda>s. case base58_decode s of
          Inl e \<Rightarrow> Inl InvalidAddress
        | Inr b \<Rightarrow> if length b = 32 then Inr b else Inl InvalidAddress),
      toString = base58_encode,
      getAssociatedTokenAddress = (\<lambda>m ownr. Inr (derive m ownr)),
      tx_sign = (\<lambda>t kp. Inr (map (of_nat \<circ> of_char) (case recentBlockhash t of None \<Rightarrow> [] | Some h \<Rightarrow> h)
                            @ take 4 (kp_secretKey kp))),
      serialize = (\<lambda>t. Inr ((case tx_signature t of None \<Rightarrow> [] | Some sg \<Rightarrow> sg)
                            @ [of_nat (length (instructions t))])),
      bs58_encode = base58_encode,
      bs58_decode = base58_decode,
      generate = (\<lambda>seed. \<lparr>kp_publicKey = rev seed, kp_secretKey = seed @ rev seed\<rparr>),
      fromSecretKey = (\<lambda>sk. if length sk \<noteq> 64 then Inl InvalidSecretKey
                            else if rev (take 32 sk) \<noteq> drop 32 sk then Inl InvalidSecretKey
                            else Inr \<lparr>kp_publicKey = drop 32 sk, kp_secretKey = sk\<rparr>)\<rparr>"

definition mock_seed :: bytes where
  "mock_seed = [1, 2, 3, 4, 5, 6, 7, 8, 9, 10, 11, 12, 13, 14, 15, 16,
                17, 18, 19, 20, 21, 22, 23, 24, 25, 26, 27, 28, 29, 30, 31, 32]"

definition mock_wallet :: WalletInfo where
  "mock_wallet =
     \<lparr>publicKey = ''3APZt7ozMtE2uLgm6RQjfR9r7YJq2QLTtPLkqnWiAGxQ'',
      secretKey = ''2Ana1pUpv2ZbMVkwF5FXapYeBEjdxDatLn7nvJkhgTSXXuzc7KsjLGRqPeFgpJUYLYbXq4VDxLoiFu7pcY51d1J'',
      keypair = \<lparr>kp_publicKey = rev mock_seed, kp_secretKey = mock_seed @ rev mock_seed\<rparr>\<rparr>"

definition mock_recipient :: string where
  "mock_recipient = ''83astBRguLMdt2h5U1Tpdq5tjFoJ6noeGwaY3mDLVcri''"

definition mock_recipient_key :: PublicKey where
  "mock_recipient_key =
     [104, 171, 70, 119, 255, 177, 242, 137, 77, 208, 166, 21, 60, 35, 29, 69,
      236, 67, 106, 229, 58, 230, 1, 73, 219, 225, 95, 50, 228, 184, 112, 63]"

definition script :: "(error + string) list \<Rightarrow> (error + string) list \<Rightarrow> mock_world" where
  "script hs ss = \<lparr>blockhashes = hs, accountInfos = [], submissions = ss, balances = []\<rparr>"

text \<open>The native transfer of 100000 lamports that the stand-ins build on the blockhash \<open>h\<close>.\<close>

definition mock_td :: "string \<Rightarrow> TransactionData" where
  "mock_td h =
     \<lparr>transaction = map (of_nat \<circ> of_char) h @ [1, 2, 3, 4, 1],
      signature = base58_encode (map (of_nat \<circ> of_char) h @ [1, 2, 3, 4]),
      rawTransaction =
        \<lparr>instructions = [SystemTransfer (rev mock_seed) mock_recipient_key (Finite 100000)],
         recentBlockhash = Some h,
         feePayer = Some (rev mock_seed),
         tx_signature = Some (map (of_nat \<circ> of_char) h @ [1, 2, 3, 4])\<rparr>\<rparr>"

definition mock_mint_key :: PublicKey where
  "mock_mint_key =
     [59, 68, 44, 179, 145, 33, 87, 241, 58, 147, 61, 1, 52, 40, 45, 3,
      43, 95, 254, 205, 1, 162, 219, 241, 183, 121, 6, 8, 223, 0, 46, 167]"

text \<open>
  The token transfer of 1.5 units that the stand-ins build on the blockhash \<open>h\<close> when the
  ledger answers \<open>info\<close> to the question about the recipient's holding account.
\<close>

definition mock_token_td :: "string \<Rightarrow> bytes option \<Rightarrow> TransactionData" where
  "mock_token_td h info =
     \<lparr>transaction = map (of_nat \<circ> of_char) h @ [1, 2, 3, 4, if info = None then 2 else 1],
      signature = base58_encode (map (of_nat \<circ> of_char) h @ [1, 2, 3, 4]),
      rawTransaction =
        \<lparr>instructions =
           (if info = None
            then [CreateAssociatedTokenAccount (rev mock_seed) (derive mock_mint_key mock_recipient_key)
                    mock_recipient_key mock_mint_key TOKEN_PROGRAM_ID ASSOCIATED_TOKEN_PROGRAM_ID]
            else [])
           @ [TokenTransfer (derive mock_mint_key (rev mock_seed)) (derive mock_mint_key mock_recipient_key)
                (rev mock_seed) 1500000 [] TOKEN_PROGRAM_ID],
         recentBlockhash = Some h,
         feePayer = Some (rev mock_seed),
         tx_signature = Some (map (of_nat \<circ> of_char) h @ [1, 2, 3, 4])\<rparr>\<rparr>"

section \<open>Properties\<close>

lemma count_append [simp]: "count P (xs @ ys) = count P xs + count P ys"
  by (simp add: count_def)

lemma count_Nil [simp]: "count P [] = 0"
  by (simp add: count_def)

lemma count_Cons [simp]: "count P (e # es) = (if P e then 1 else 0) + count P es"
  by (simp add: count_def)

lemma trace_log [simp]: "trace (log es st) = trace st @ es"
  by (simp add: log_def)

lemma world_log [simp]: "world (log es st) = world st"
  by (simp add: log_def)

lemma trace_broadcast:
  "broadcast c b st = (r, st') \<Longrightarrow> trace st' = trace st @ [Broadcast b r]"
  by (auto simp: broadcast_def split: prod.splits)

declare createUntilLogicMatches_loop.simps [simp del]

lemma loop_rule:
  assumes exhausted: "\<And>attempts txd st. \<not> attempts < maxAttempts \<Longrightarrow>
            Q attempts txd st (\<lparr>txData = txd, res_signature = None\<rparr>, st)"
      and build_failed: "\<And>attempts txd st e w1 res. attempts < maxAttempts \<Longrightarrow>
            build lib c wallet rcp amt isToken (world st) = (Inl e, w1) \<Longrightarrow>
            Q (attempts + 1) txd (log [BuildFailed e, Delay 1000] (st\<lparr>world := w1\<rparr>)) res \<Longrightarrow>
            Q attempts txd st res"
      and rejected: "\<And>attempts txd st td w1 res. attempts < maxAttempts \<Longrightarrow>
            build lib c wallet rcp amt isToken (world st) = (Inr td, w1) \<Longrightarrow>
            \<not> logicFunction (signature td) \<Longrightarrow>
            Q (attempts + 1) (Some td)
              (log (if (attempts + 1) mod 10 = 0 then [Delay 10, Delay 500] else [Delay 10])
                 (log [BuildOk td, PredicateEval (signature td) False] (st\<lparr>world := w1\<rparr>))) res \<Longrightarrow>
            Q attempts txd st res"
      and broadcast_failed: "\<And>attempts txd st td w1 e st2 res. attempts < maxAttempts \<Longrightarrow>
            build lib c wallet rcp amt isToken (world st) = (Inr td, w1) \<Longrightarrow>
            logicFunction (signature td) \<Longrightarrow>
            broadcast c (transaction td)
              (log [BuildOk td, PredicateEval (signature td) True] (st\<lparr>world := w1\<rparr>)) = (Inl e, st2) \<Longrightarrow>
            Q (attempts + 1) (Some td) (log [Delay 1000] st2) res \<Longrightarrow>
            Q attempts txd st res"
      and accepted: "\<And>attempts txd st td w1 sig st2. attempts < maxAttempts \<Longrightarrow>
            build lib c wallet rcp amt isToken (world st) = (Inr td, w1) \<Longrightarrow>
            logicFunction (signature td) \<Longrightarrow>
            broadcast c (transaction td)
              (log [BuildOk td, PredicateEval (signature td) True] (st\<lparr>world := w1\<rparr>)) = (Inr sig, st2) \<Longrightarrow>
            Q attempts txd st (\<lparr>txData = Some td, res_signature = Some sig\<rparr>, st2)"
  shows "Q attempts txd st (createUntilLogicMatches_loop lib c wallet rcp amt logicFunction isToken
            maxAttempts attempts txd st)"
  using assms
proof (induction lib c wallet rcp amt logicFunction isToken maxAttempts attempts txd st
        rule: createUntilLogicMatches_loop.induct)
  case (1 lib c wallet rcp amt logicFunction isToken maxAttempts attempts txd st)
  note rules = "1.prems"
  show ?case
  proof (cases "attempts < maxAttempts")
    case False
    then show ?thesis
      using rules(1)[of attempts txd st]
      by (subst createUntilLogicMatches_loop.simps) simp
  next
    case True
    obtain r w1 where b: "build lib c wallet rcp amt isToken (world st) = (r, w1)"
      by (cases "build lib c wallet rcp amt isToken (world st)")
    show ?thesis
    proof (cases r)
      case (Inl e)
      have "Q (attempts + 1) txd (log [BuildFailed e, Delay 1000] (st\<lparr>world := w1\<rparr>))
              (createUntilLogicMatches_loop lib c wallet rcp amt logicFunction isToken
                 maxAttempts (attempts + 1) txd (log [BuildFailed e, Delay 1000] (st\<lparr>world := w1\<rparr>)))"
        by (rule "1.IH"(1)[OF True b[unfolded Inl, symmetric] refl rules])
      from rules(2)[OF True b[unfolded Inl] this] show ?thesis
        using True b Inl by (subst createUntilLogicMatches_loop.simps) simp
    next
      case (Inr td)
      note b' = b[unfolded Inr]
      let ?st1 = "log [BuildOk td, PredicateEval (signature td) (logicFunction (signature td))] (st\<lparr>world := w1\<rparr>)"
      show ?thesis
      proof (cases "logicFunction (signature td)")
        case False
        let ?st2 = "log (if (attempts + 1) mod 10 = 0 then [Delay 10, Delay 500] else [Delay 10]) ?st1"
        have "Q (attempts + 1) (Some td) ?st2
                (createUntilLogicMatches_loop lib c wallet rcp amt logicFunction isToken
                   maxAttempts (attempts + 1) (Some td) ?st2)"
          by (rule "1.IH"(3)[OF True b'[symmetric] refl refl refl False rules])
        from rules(3)[OF True b' False this[unfolded eq_False[THEN iffD2, OF False]]] show ?thesis
          using True b' False by (subst createUntilLogicMatches_loop.simps) (simp add: Let_def)
      next
        case accept: True
        obtain r2 st2 where bc: "broadcast c (transaction td) ?st1 = (r2, st2)"
          by (cases "broadcast c (transaction td) ?st1")
        show ?thesis
        proof (cases r2)
          case (Inl e)
          have "Q (attempts + 1) (Some td) (log [Delay 1000] st2)
                  (createUntilLogicMatches_loop lib c wallet rcp amt logicFunction isToken
                     maxAttempts (attempts + 1) (Some td) (log [Delay 1000] st2))"
            by (rule "1.IH"(2)[OF True b'[symmetric] refl refl refl accept bc[unfolded Inl, symmetric] refl rules])
          from rules(4)[OF True b' accept bc[unfolded Inl eq_True[THEN iffD2, OF accept]] this] show ?thesis
            using True b' accept bc Inl by (subst createUntilLogicMatches_loop.simps) (simp add: Let_def)
        next
          case (Inr sig)
          from rules(5)[OF True b' accept bc[unfolded Inr eq_True[THEN iffD2, OF accept]]] show ?thesis
            using True b' accept bc Inr by (subst createUntilLogicMatches_loop.simps) (simp add: Let_def)
        qed
      qed
    qed
  qed
qed


lemma loop_rejecting:
  assumes "\<forall>s. \<not> logicFunction s"
  shows "\<exists>es. trace (snd (createUntilLogicMatches_loop lib c wallet rcp amt logicFunction isToken
            maxAttempts attempts txd st)) = trace st @ es
          \<and> count is_build es = maxAttempts - attempts
          \<and> count is_broadcast es = 0
          \<and> res_signature (fst (createUntilLogicMatches_loop lib c wallet rcp amt logicFunction isToken
            maxAttempts attempts txd st)) = None"
proof (rule loop_rule[where Q = "\<lambda>attempts txd st res. \<exists>es. trace (snd res) = trace st @ es
          \<and> count is_build es = maxAttempts - attempts \<and> count is_broadcast es = 0
          \<and> res_signature (fst res) = None"], goal_cases)
  case (1 attempts txd st)
  then show ?case by simp
next
  case (2 attempts txd st e w1 res)
  then obtain es where "trace (snd res) = trace st @ [BuildFailed e, Delay 1000] @ es"
    "count is_build es = maxAttempts - (attempts + 1)" "count is_broadcast es = 0"
    "res_signature (fst res) = None" by auto
  with 2(1) show ?case
    by (intro exI[of _ "[BuildFailed e, Delay 1000] @ es"]) simp
next
  case (3 attempts txd st td w1 res)
  let ?d = "if (attempts + 1) mod 10 = 0 then [Delay 10, Delay 500] else [Delay 10]"
  from 3 obtain es where "trace (snd res) = trace st @ ([BuildOk td, PredicateEval (signature td) False] @ ?d) @ es"
    "count is_build es = maxAttempts - (attempts + 1)" "count is_broadcast es = 0"
    "res_signature (fst res) = None" by auto
  with 3(1) show ?case
    by (intro exI[of _ "([BuildOk td, PredicateEval (signature td) False] @ ?d) @ es"]) auto
next
  case 4
  with assms show ?case by simp
next
  case 5
  with assms show ?case by simp
qed


text \<open>
  C3. With a predicate that rejects every signature, an invocation with budget \<open>n\<close> makes
  exactly \<open>n\<close> build attempts (failed ones included), never calls the broadcast
  capability, and returns no signature.
\<close>

theorem grind_rejecting_predicate:
  assumes "\<forall>s. \<not> logicFunction s"
  shows "count is_build (trace (snd (createUntilLogicMatches lib c wallet rcp amt logicFunction isToken n w))) = n
       \<and> count is_broadcast (trace (snd (createUntilLogicMatches lib c wallet rcp amt logicFunction isToken n w))) = 0
       \<and> res_signature (fst (createUntilLogicMatches lib c wallet rcp amt logicFunction isToken n w)) = None"
  using loop_rejecting[OF assms, of lib c wallet rcp amt isToken n 0 None "\<lparr>world = w, trace = []\<rparr>"]
  by (auto simp: createUntilLogicMatches_def)

theorem grind_rejecting_predicate_witness:
  "(\<forall>s. \<not> (\<lambda>s. False) s)
   \<and> count is_build (trace (snd (createUntilLogicMatches mock_lib mock_client mock_wallet mock_recipient
        (Finite 100000) (\<lambda>s. False) False 3
        (script [Inr ''h1'', Inl NetworkUnavailable, Inr ''h3'', Inr ''h4''] [Inr ''sig''])))) = 3
   \<and> count is_broadcast (trace (snd (createUntilLogicMatches mock_lib mock_client mock_wallet mock_recipient
        (Finite 100000) (\<lambda>s. False) False 3
        (script [Inr ''h1'', Inl NetworkUnavailable, Inr ''h3'', Inr ''h4''] [Inr ''sig''])))) = 0
   \<and> res_signature (fst (createUntilLogicMatches mock_lib mock_client mock_wallet mock_recipient
        (Finite 100000) (\<lambda>s. False) False 3
        (script [Inr ''h1'', Inl NetworkUnavailable, Inr ''h3'', Inr ''h4''] [Inr ''sig'']))) = None"
  using grind_rejecting_predicate[of "\<lambda>s. False" mock_lib mock_client mock_wallet mock_recipient
        "Finite 100000" False 3 "script [Inr ''h1'', Inl NetworkUnavailable, Inr ''h3'', Inr ''h4''] [Inr ''sig'']"]
  by simp

lemma mock_build:
  "build mock_lib mock_client mock_wallet mock_recipient (Finite 100000) False (script (Inr h # hs) ss)
     = (Inr (mock_td h), script hs ss)"
proof -
  have "newPublicKey mock_lib mock_recipient = Inr mock_recipient_key"
    by code_simp
  then show ?thesis
    by (simp add: build_def createAndSignTransaction_def finishTransaction_def mock_client_def
        mock_connection_def script_def mock_td_def mock_lib_def mock_wallet_def add_def
        new_Transaction_def mock_seed_def)
qed



lemma loop_budget:
  "\<exists>es. trace (snd (createUntilLogicMatches_loop lib c wallet rcp amt logicFunction isToken
            maxAttempts attempts txd st)) = trace st @ es
        \<and> count is_predicate_eval es = count is_build_ok es
        \<and> count is_build_ok es + count is_build_failed es \<le> maxAttempts - attempts
        \<and> (res_signature (fst (createUntilLogicMatches_loop lib c wallet rcp amt logicFunction
               isToken maxAttempts attempts txd st)) = None
             \<longrightarrow> count is_build_ok es + count is_build_failed es = maxAttempts - attempts)
        \<and> failures_delayed es"
proof (rule loop_rule[where Q = "\<lambda>attempts txd st res. \<exists>es. trace (snd res) = trace st @ es
          \<and> count is_predicate_eval es = count is_build_ok es
          \<and> count is_build_ok es + count is_build_failed es \<le> maxAttempts - attempts
          \<and> (res_signature (fst res) = None
               \<longrightarrow> count is_build_ok es + count is_build_failed es = maxAttempts - attempts)
          \<and> failures_delayed es"],
       goal_cases)
  case (1 attempts txd st)
  then show ?case by simp
next
  case (2 attempts txd st e w1 res)
  then obtain es where es: "trace (snd res) = trace st @ [BuildFailed e, Delay 1000] @ es"
    "count is_predicate_eval es = count is_build_ok es"
    "count is_build_ok es + count is_build_failed es \<le> maxAttempts - (attempts + 1)"
    "res_signature (fst res) = None
       \<longrightarrow> count is_build_ok es + count is_build_failed es = maxAttempts - (attempts + 1)"
    "failures_delayed es"
    by auto
  with 2(1) show ?case
    by (intro exI[of _ "[BuildFailed e, Delay 1000] @ es"]) auto
next
  case (3 attempts txd st td w1 res)
  let ?d = "if (attempts + 1) mod 10 = 0 then [Delay 10, Delay 500] else [Delay 10]"
  from 3 obtain es where es:
    "trace (snd res) = trace st @ ([BuildOk td, PredicateEval (signature td) False] @ ?d) @ es"
    "count is_predicate_eval es = count is_build_ok es"
    "count is_build_ok es + count is_build_failed es \<le> maxAttempts - (attempts + 1)"
    "res_signature (fst res) = None
       \<longrightarrow> count is_build_ok es + count is_build_failed es = maxAttempts - (attempts + 1)"
    "failures_delayed es"
    by auto
  with 3(1) show ?case
    by (intro exI[of _ "([BuildOk td, PredicateEval (signature td) False] @ ?d) @ es"]) auto
next
  case (4 attempts txd st td w1 e st2 res)
  from trace_broadcast[OF 4(4)] 4(5) obtain es where es:
    "trace (snd res) = trace st @ [BuildOk td, PredicateEval (signature td) True,
        Broadcast (transaction td) (Inl e), Delay 1000] @ es"
    "count is_predicate_eval es = count is_build_ok es"
    "count is_build_ok es + count is_build_failed es \<le> maxAttempts - (attempts + 1)"
    "res_signature (fst res) = None
       \<longrightarrow> count is_build_ok es + count is_build_failed es = maxAttempts - (attempts + 1)"
    "failures_delayed es"
    by auto
  with 4(1) show ?case
    by (intro exI[of _ "[BuildOk td, PredicateEval (signature td) True,
        Broadcast (transaction td) (Inl e), Delay 1000] @ es"]) auto
next
  case (5 attempts txd st td w1 sig st2)
  from trace_broadcast[OF 5(4)] 5(1) show ?case
    by (intro exI[of _ "[BuildOk td, PredicateEval (signature td) True,
        Broadcast (transaction td) (Inr sig)]"]) auto
qed

lemma last_built_append: "last_built txd (xs @ ys) = last_built (last_built txd xs) ys"
  by (induction txd xs rule: last_built.induct) auto

lemma last_built_none: "count is_build_ok es = 0 \<Longrightarrow> last_built txd es = txd"
  by (induction txd es rule: last_built.induct) auto

lemma loop_txData:
  "\<exists>es. trace (snd (createUntilLogicMatches_loop lib c wallet rcp amt logicFunction isToken
            maxAttempts attempts txd st)) = trace st @ es
        \<and> txData (fst (createUntilLogicMatches_loop lib c wallet rcp amt logicFunction isToken
            maxAttempts attempts txd st)) = last_built txd es
        \<and> (count is_build_ok es = 0 \<longrightarrow>
             res_signature (fst (createUntilLogicMatches_loop lib c wallet rcp amt logicFunction isToken
               maxAttempts attempts txd st)) = None)"
proof (rule loop_rule[where Q = "\<lambda>attempts txd st res. \<exists>es. trace (snd res) = trace st @ es
          \<and> txData (fst res) = last_built txd es
          \<and> (count is_build_ok es = 0 \<longrightarrow> res_signature (fst res) = None)"],
       goal_cases)
  case (1 attempts txd st)
  then show ?case by simp
next
  case (2 attempts txd st e w1 res)
  then obtain es where es: "trace (snd res) = trace st @ [BuildFailed e, Delay 1000] @ es"
    "txData (fst res) = last_built txd es"
    "count is_build_ok es = 0 \<longrightarrow> res_signature (fst res) = None"
    by auto
  then show ?case
    by (intro exI[of _ "[BuildFailed e, Delay 1000] @ es"]) auto
next
  case (3 attempts txd st td w1 res)
  let ?d = "if (attempts + 1) mod 10 = 0 then [Delay 10, Delay 500] else [Delay 10]"
  from 3 obtain es where es:
    "trace (snd res) = trace st @ ([BuildOk td, PredicateEval (signature td) False] @ ?d) @ es"
    "txData (fst res) = last_built (Some td) es"
    by auto
  then show ?case
    by (intro exI[of _ "([BuildOk td, PredicateEval (signature td) False] @ ?d) @ es"]) auto
next
  case (4 attempts txd st td w1 e st2 res)
  from trace_broadcast[OF 4(4)] 4(5) obtain es where es:
    "trace (snd res) = trace st @ [BuildOk td, PredicateEval (signature td) True,
        Broadcast (transaction td) (Inl e), Delay 1000] @ es"
    "txData (fst res) = last_built (Some td) es"
    by auto
  then show ?case
    by (intro exI[of _ "[BuildOk td, PredicateEval (signature td) True,
        Broadcast (transaction td) (Inl e), Delay 1000] @ es"]) auto
next
  case (5 attempts txd st td w1 sig st2)
  from trace_broadcast[OF 5(4)] show ?case
    by (intro exI[of _ "[BuildOk td, PredicateEval (signature td) True,
        Broadcast (transaction td) (Inr sig)]"]) auto
qed

lemma mock_build_failed:
  "build mock_lib mock_client mock_wallet mock_recipient (Finite 100000) False (script (Inl e # hs) ss)
     = (Inl e, script hs ss)"
proof -
  have "newPublicKey mock_lib mock_recipient = Inr mock_recipient_key"
    by code_simp
  then show ?thesis
    by (simp add: build_def createAndSignTransaction_def finishTransaction_def mock_client_def
        mock_connection_def script_def)
qed

lemma mock_broadcast:
  "broadcast mock_client b \<lparr>world = script hs (r # ss), trace = tr\<rparr>
     = (r, \<lparr>world = script hs ss, trace = tr @ [Broadcast b r]\<rparr>)"
  by (simp add: broadcast_def mock_client_def mock_connection_def script_def)



text \<open>
  C4, counterexample. With a budget of 1 and a first build that fails with
  \<open>NetworkUnavailable\<close>, the invocation ends after the delay without any evaluation of
  the predicate, although the next build would have succeeded and been accepted.
\<close>

theorem grind_failed_build_counted_counterexample:
  "createUntilLogicMatches mock_lib mock_client mock_wallet mock_recipient (Finite 100000)
     (\<lambda>s. True) False 1 (script [Inl NetworkUnavailable, Inr ''h2''] [Inr ''sig''])
   = (\<lparr>txData = None, res_signature = None\<rparr>,
      \<lparr>world = script [Inr ''h2''] [Inr ''sig''],
       trace = [BuildFailed NetworkUnavailable, Delay 1000]\<rparr>)"
  by (simp add: createUntilLogicMatches_def createUntilLogicMatches_loop.simps mock_build_failed
      log_def)


text \<open>
  C4, as amended. A failed build is followed by the delay of 1000 ms and the loop goes on,
  but the iteration counts: the predicate is evaluated once per successful build, the
  successful and the failed builds together never exceed the budget \<open>m\<close>, and they
  use it up exactly when the invocation returns no signature.
\<close>

theorem grind_budget_counts_failures:
  "count is_predicate_eval (trace (snd (createUntilLogicMatches lib c wallet rcp amt logicFunction isToken m w)))
     = count is_build_ok (trace (snd (createUntilLogicMatches lib c wallet rcp amt logicFunction isToken m w)))
   \<and> count is_build_ok (trace (snd (createUntilLogicMatches lib c wallet rcp amt logicFunction isToken m w)))
       + count is_build_failed (trace (snd (createUntilLogicMatches lib c wallet rcp amt logicFunction isToken m w)))
       \<le> m
   \<and> (res_signature (fst (createUntilLogicMatches lib c wallet rcp amt logicFunction isToken m w)) = None
       \<longrightarrow> count is_build_ok (trace (snd (createUntilLogicMatches lib c wallet rcp amt logicFunction isToken m w)))
           + count is_build_failed (trace (snd (createUntilLogicMatches lib c wallet rcp amt logicFunction isToken m w)))
           = m)
   \<and> failures_delayed (trace (snd (createUntilLogicMatches lib c wallet rcp amt logicFunction isToken m w)))"
  using loop_budget[of lib c wallet rcp amt logicFunction isToken m 0 None "\<lparr>world = w, trace = []\<rparr>"]
  by (auto simp: createUntilLogicMatches_def)

lemma mock_run_3:
  "createUntilLogicMatches mock_lib mock_client mock_wallet mock_recipient (Finite 100000)
     (\<lambda>s. False) False 3 (script [Inr ''h1'', Inl NetworkUnavailable, Inr ''h3'', Inr ''h4''] [Inr ''sig''])
   = (\<lparr>txData = Some (mock_td ''h3''), res_signature = None\<rparr>,
      \<lparr>world = script [Inr ''h4''] [Inr ''sig''],
       trace = [BuildOk (mock_td ''h1''), PredicateEval (signature (mock_td ''h1'')) False, Delay 10,
                BuildFailed NetworkUnavailable, Delay 1000,
                BuildOk (mock_td ''h3''), PredicateEval (signature (mock_td ''h3'')) False, Delay 10]\<rparr>)"
  by (simp add: createUntilLogicMatches_def createUntilLogicMatches_loop.simps mock_build
      mock_build_failed log_def)

theorem grind_budget_counts_failures_witness:
  "res_signature (fst (createUntilLogicMatches mock_lib mock_client mock_wallet mock_recipient (Finite 100000)
     (\<lambda>s. False) False 3 (script [Inr ''h1'', Inl NetworkUnavailable, Inr ''h3'', Inr ''h4''] [Inr ''sig'']))) = None
   \<and> count is_predicate_eval (trace (snd (createUntilLogicMatches mock_lib mock_client mock_wallet
        mock_recipient (Finite 100000) (\<lambda>s. False) False 3
        (script [Inr ''h1'', Inl NetworkUnavailable, Inr ''h3'', Inr ''h4''] [Inr ''sig'']))))
      + count is_build_failed (trace (snd (createUntilLogicMatches mock_lib mock_client mock_wallet
        mock_recipient (Finite 100000) (\<lambda>s. False) False 3
        (script [Inr ''h1'', Inl NetworkUnavailable, Inr ''h3'', Inr ''h4''] [Inr ''sig''])))) = 3"
proof -
  have h: "res_signature (fst (createUntilLogicMatches mock_lib mock_client mock_wallet mock_recipient
      (Finite 100000) (\<lambda>s. False) False 3
      (script [Inr ''h1'', Inl NetworkUnavailable, Inr ''h3'', Inr ''h4''] [Inr ''sig'']))) = None"
    by (simp add: mock_run_3)
  from grind_budget_counts_failures[of mock_lib mock_client mock_wallet mock_recipient "Finite 100000"
      "\<lambda>s. False" False 3 "script [Inr ''h1'', Inl NetworkUnavailable, Inr ''h3'', Inr ''h4''] [Inr ''sig'']"]
    h show ?thesis
    by simp
qed



text \<open>
  C10. When no build of an invocation succeeds, the result carries no transaction data
  (the variable \<open>txData\<close> was never assigned) and no signature.
\<close>

theorem grind_no_build_no_txData:
  assumes "count is_build_ok (trace (snd (createUntilLogicMatches lib c wallet rcp amt logicFunction isToken n w))) = 0"
  shows "txData (fst (createUntilLogicMatches lib c wallet rcp amt logicFunction isToken n w)) = None
       \<and> res_signature (fst (createUntilLogicMatches lib c wallet rcp amt logicFunction isToken n w)) = None"
  using loop_txData[of lib c wallet rcp amt logicFunction isToken n 0 None "\<lparr>world = w, trace = []\<rparr>"] assms
  by (auto simp: createUntilLogicMatches_def last_built_none)

lemma mock_run_failing:
  "createUntilLogicMatches mock_lib mock_client mock_wallet mock_recipient (Finite 100000)
     (\<lambda>s. True) False 2 (script [Inl NetworkUnavailable, Inl NetworkUnavailable, Inr ''h3''] [Inr ''sig''])
   = (\<lparr>txData = None, res_signature = None\<rparr>,
      \<lparr>world = script [Inr ''h3''] [Inr ''sig''],
       trace = [BuildFailed NetworkUnavailable, Delay 1000, BuildFailed NetworkUnavailable, Delay 1000]\<rparr>)"
  by (simp add: createUntilLogicMatches_def createUntilLogicMatches_loop.simps mock_build_failed log_def)

theorem grind_no_build_no_txData_witness:
  "count is_build_ok (trace (snd (createUntilLogicMatches mock_lib mock_client mock_wallet mock_recipient
       (Finite 100000) (\<lambda>s. True) False 2
       (script [Inl NetworkUnavailable, Inl NetworkUnavailable, Inr ''h3''] [Inr ''sig''])))) = 0
   \<and> txData (fst (createUntilLogicMatches mock_lib mock_client mock_wallet mock_recipient
       (Finite 100000) (\<lambda>s. True) False 2
       (script [Inl NetworkUnavailable, Inl NetworkUnavailable, Inr ''h3''] [Inr ''sig'']))) = None
   \<and> res_signature (fst (createUntilLogicMatches mock_lib mock_client mock_wallet mock_recipient
       (Finite 100000) (\<lambda>s. True) False 2
       (script [Inl NetworkUnavailable, Inl NetworkUnavailable, Inr ''h3''] [Inr ''sig'']))) = None"
proof -
  have h: "count is_build_ok (trace (snd (createUntilLogicMatches mock_lib mock_client mock_wallet mock_recipient
       (Finite 100000) (\<lambda>s. True) False 2
       (script [Inl NetworkUnavailable, Inl NetworkUnavailable, Inr ''h3''] [Inr ''sig''])))) = 0"
    by (simp add: mock_run_failing)
  from grind_no_build_no_txData[OF h] h show ?thesis
    by blast
qed


lemma mock_recipient_key: "newPublicKey mock_lib mock_recipient = Inr mock_recipient_key"
  by code_simp

lemma mock_mint_key: "newPublicKey mock_lib (getUsdcMint mock_client) = Inr mock_mint_key"
  by code_simp

lemma mock_derive: "getAssociatedTokenAddress mock_lib m ownr = Inr (derive m ownr)"
  by (simp add: mock_lib_def)

lemma mock_units: "BigInt (tokenAmount (Finite (3 / 2))) = Inr 1500000"
  by code_simp

lemma checkSignatureAndSubmit_logic_spec:
  "count is_broadcast (trace (snd (checkSignatureAndSubmit_logic c txd logicFunction w)))
     = (if logicFunction (signature txd) then 1 else 0)
   \<and> (\<not> logicFunction (signature txd) \<longrightarrow>
        fst (checkSignatureAndSubmit_logic c txd logicFunction w) = Inr None)
   \<and> (logicFunction (signature txd) \<longrightarrow>
        fst (checkSignatureAndSubmit_logic c txd logicFunction w)
          = map_sum id Some (fst (sendRawTransaction (connection c) (transaction txd) w)))"
  by (auto simp: checkSignatureAndSubmit_logic_def broadcast_def Let_def split: prod.splits sum.splits)

lemma checkSignatureAndSubmit_always_broadcasts:
  "count is_broadcast (trace (snd (checkSignatureAndSubmit c txd w))) = 1
   \<and> fst (checkSignatureAndSubmit c txd w)
       = map_sum id Some (fst (sendRawTransaction (connection c) (transaction txd) w))"
  by (auto simp: checkSignatureAndSubmit_def broadcast_def split: prod.splits sum.splits)

text \<open>
  C1, the code at the failing input. \<open>checkSignatureAndSubmit\<close> of \<open>src/index.ts\<close> has no
  predicate to consult: for a transaction whose signature a predicate rejects it
  broadcasts all the same and returns the broadcast signature, where the variant with the
  predicate makes no broadcast and returns \<open>None\<close>.
\<close>

theorem checkSignatureAndSubmit_ignores_predicate:
  "\<not> (\<lambda>s. False) (signature (mock_td ''h1''))
   \<and> checkSignatureAndSubmit mock_client (mock_td ''h1'') (script [] [Inr ''sig1''])
       = (Inr (Some ''sig1''),
          \<lparr>world = script [] [], trace = [Broadcast (transaction (mock_td ''h1'')) (Inr ''sig1'')]\<rparr>)
   \<and> checkSignatureAndSubmit_logic mock_client (mock_td ''h1'') (\<lambda>s. False) (script [] [Inr ''sig1''])
       = (Inr None,
          \<lparr>world = script [] [Inr ''sig1''],
           trace = [PredicateEval (signature (mock_td ''h1'')) False]\<rparr>)"
  by (simp add: checkSignatureAndSubmit_def checkSignatureAndSubmit_logic_def mock_broadcast)

text \<open>
  C6. A token build that succeeds has, when the gateway reported no holding account for
  the recipient, exactly the two operations create-holding-account (payer = sender) and
  token transfer, in this order; and the token transfer alone when the account exists.
\<close>

theorem token_build_instructions:
  assumes "newPublicKey lib (getUsdcMint c) = Inr mintPublicKey"
      and "newPublicKey lib rcp = Inr recipientPublicKey"
      and "getAssociatedTokenAddress lib mintPublicKey (kp_publicKey (keypair wallet)) = Inr senderTokenAccount"
      and "getAssociatedTokenAddress lib mintPublicKey recipientPublicKey = Inr recipientTokenAccount"
      and "getAccountInfo (connection c) recipientTokenAccount w = (Inr recipientAccountInfo, w1)"
      and "BigInt (tokenAmount amt) = Inr units"
      and "createAndSignTokenTransaction lib c wallet rcp amt w = (Inr td, w2)"
  shows "(recipientAccountInfo = None \<longrightarrow>
           instructions (rawTransaction td) =
             [CreateAssociatedTokenAccount (kp_publicKey (keypair wallet)) recipientTokenAccount
                recipientPublicKey mintPublicKey TOKEN_PROGRAM_ID ASSOCIATED_TOKEN_PROGRAM_ID,
              TokenTransfer senderTokenAccount recipientTokenAccount (kp_publicKey (keypair wallet))
                units [] TOKEN_PROGRAM_ID])
       \<and> (recipientAccountInfo \<noteq> None \<longrightarrow>
           instructions (rawTransaction td) =
             [TokenTransfer senderTokenAccount recipientTokenAccount (kp_publicKey (keypair wallet))
                units [] TOKEN_PROGRAM_ID])"
  using assms
  by (auto simp: createAndSignTokenTransaction_def finishTransaction_def add_def new_Transaction_def
      Let_def split: prod.splits sum.splits if_splits)

text \<open>
  C7, as amended. Once the address and the holding account are derived, a balance fetch
  that fails gives the balance 0, whatever the error \<open>e\<close> is: none is propagated.
\<close>

theorem token_balance_fetch_failure_is_zero:
  assumes "newPublicKey lib address = Inr pk"
      and "newPublicKey lib (getUsdcMint c) = Inr mintPublicKey"
      and "getAssociatedTokenAddress lib mintPublicKey pk = Inr tokenAccount"
      and "getTokenAccountBalance (connection c) tokenAccount w = (Inl e, w1)"
  shows "getTokenBalance lib c address w = (Inr (Finite 0), w1)"
  using assms by (simp add: getTokenBalance_def)

lemma mock_balance:
  "getTokenAccountBalance (connection mock_client) a
     \<lparr>blockhashes = hs, accountInfos = as, submissions = ss, balances = r # rs\<rparr>
   = (r, \<lparr>blockhashes = hs, accountInfos = as, submissions = ss, balances = rs\<rparr>)"
  by (simp add: mock_client_def mock_connection_def)

lemma mock_account_info:
  "getAccountInfo (connection mock_client) a
     \<lparr>blockhashes = hs, accountInfos = r # rs, submissions = ss, balances = bs\<rparr>
   = (r, \<lparr>blockhashes = hs, accountInfos = rs, submissions = ss, balances = bs\<rparr>)"
  by (simp add: mock_client_def mock_connection_def)

lemma mock_blockhash:
  "getLatestBlockhash (connection mock_client)
     \<lparr>blockhashes = r # rs, accountInfos = as, submissions = ss, balances = bs\<rparr>
   = (r, \<lparr>blockhashes = rs, accountInfos = as, submissions = ss, balances = bs\<rparr>)"
  by (simp add: mock_client_def mock_connection_def)

text \<open>
  C7, counterexample. The balance fetch fails with \<open>NetworkUnavailable\<close>, and
  \<open>getTokenBalance\<close> returns 0 instead of the error.
\<close>

theorem token_balance_swallows_network_error_counterexample:
  "getTokenBalance mock_lib mock_client mock_recipient
     \<lparr>blockhashes = [], accountInfos = [], submissions = [], balances = [Inl NetworkUnavailable]\<rparr>
   = (Inr (Finite 0), \<lparr>blockhashes = [], accountInfos = [], submissions = [], balances = []\<rparr>)"
  by (simp add: getTokenBalance_def mock_recipient_key mock_mint_key mock_derive mock_balance)


theorem token_balance_fetch_failure_is_zero_witness:
  "getTokenBalance mock_lib mock_client mock_recipient
     \<lparr>blockhashes = [], accountInfos = [], submissions = [], balances = [Inl AccountNotFound]\<rparr>
   = (Inr (Finite 0), \<lparr>blockhashes = [], accountInfos = [], submissions = [], balances = []\<rparr>)"
  by (rule token_balance_fetch_failure_is_zero[OF mock_recipient_key mock_mint_key mock_derive mock_balance])

lemma mock_lib_sign:
  "tx_sign mock_lib t kp = Inr (map (of_nat \<circ> of_char) (case recentBlockhash t of None \<Rightarrow> [] | Some h \<Rightarrow> h)
                            @ take 4 (kp_secretKey kp))"
  "serialize mock_lib t = Inr ((case tx_signature t of None \<Rightarrow> [] | Some sg \<Rightarrow> sg)
                            @ [of_nat (length (instructions t))])"
  "bs58_encode mock_lib = base58_encode"
  by (simp_all add: mock_lib_def)

lemma mock_token_build:
  "createAndSignTokenTransaction mock_lib mock_client mock_wallet mock_recipient (Finite (3 / 2))
     \<lparr>blockhashes = [Inr h], accountInfos = [Inr info], submissions = [], balances = []\<rparr>
   = (Inr (mock_token_td h info),
      \<lparr>blockhashes = [], accountInfos = [], submissions = [], balances = []\<rparr>)"
  by (cases info)
     (simp_all add: createAndSignTokenTransaction_def finishTransaction_def mock_recipient_key
       mock_mint_key mock_derive mock_account_info mock_blockhash mock_units add_def
       new_Transaction_def Let_def mock_lib_sign mock_wallet_def mock_seed_def mock_token_td_def)

theorem token_build_instructions_witness:
  "createAndSignTokenTransaction mock_lib mock_client mock_wallet mock_recipient (Finite (3 / 2))
     \<lparr>blockhashes = [Inr ''h1''], accountInfos = [Inr None], submissions = [], balances = []\<rparr>
   = (Inr (mock_token_td ''h1'' None),
      \<lparr>blockhashes = [], accountInfos = [], submissions = [], balances = []\<rparr>)
   \<and> instructions (rawTransaction (mock_token_td ''h1'' None)) =
       [CreateAssociatedTokenAccount (kp_publicKey (keypair mock_wallet))
          (derive mock_mint_key mock_recipient_key) mock_recipient_key mock_mint_key
          TOKEN_PROGRAM_ID ASSOCIATED_TOKEN_PROGRAM_ID,
        TokenTransfer (derive mock_mint_key (kp_publicKey (keypair mock_wallet)))
          (derive mock_mint_key mock_recipient_key) (kp_publicKey (keypair mock_wallet))
          1500000 [] TOKEN_PROGRAM_ID]
   \<and> createAndSignTokenTransaction mock_lib mock_client mock_wallet mock_recipient (Finite (3 / 2))
     \<lparr>blockhashes = [Inr ''h1''], accountInfos = [Inr (Some [])], submissions = [], balances = []\<rparr>
   = (Inr (mock_token_td ''h1'' (Some [])),
      \<lparr>blockhashes = [], accountInfos = [], submissions = [], balances = []\<rparr>)
   \<and> instructions (rawTransaction (mock_token_td ''h1'' (Some []))) =
       [TokenTransfer (derive mock_mint_key (kp_publicKey (keypair mock_wallet)))
          (derive mock_mint_key mock_recipient_key) (kp_publicKey (keypair mock_wallet))
          1500000 [] TOKEN_PROGRAM_ID]"
proof -
  have a1: "getAccountInfo (connection mock_client) (derive mock_mint_key mock_recipient_key)
      \<lparr>blockhashes = [Inr ''h1''], accountInfos = [Inr None], submissions = [], balances = []\<rparr>
    = (Inr None, \<lparr>blockhashes = [Inr ''h1''], accountInfos = [], submissions = [], balances = []\<rparr>)"
    by (rule mock_account_info)
  have b1: "createAndSignTokenTransaction mock_lib mock_client mock_wallet mock_recipient (Finite (3 / 2))
      \<lparr>blockhashes = [Inr ''h1''], accountInfos = [Inr None], submissions = [], balances = []\<rparr>
    = (Inr (mock_token_td ''h1'' None),
       \<lparr>blockhashes = [], accountInfos = [], submissions = [], balances = []\<rparr>)"
    by (rule mock_token_build)
  have a2: "getAccountInfo (connection mock_client) (derive mock_mint_key mock_recipient_key)
      \<lparr>blockhashes = [Inr ''h1''], accountInfos = [Inr (Some [])], submissions = [], balances = []\<rparr>
    = (Inr (Some []), \<lparr>blockhashes = [Inr ''h1''], accountInfos = [], submissions = [], balances = []\<rparr>)"
    by (rule mock_account_info)
  have b2: "createAndSignTokenTransaction mock_lib mock_client mock_wallet mock_recipient (Finite (3 / 2))
      \<lparr>blockhashes = [Inr ''h1''], accountInfos = [Inr (Some [])], submissions = [], balances = []\<rparr>
    = (Inr (mock_token_td ''h1'' (Some [])),
       \<lparr>blockhashes = [], accountInfos = [], submissions = [], balances = []\<rparr>)"
    by (rule mock_token_build)
  from token_build_instructions[OF mock_mint_key mock_recipient_key mock_derive mock_derive
         a1 mock_units b1]
       token_build_instructions[OF mock_mint_key mock_recipient_key mock_derive mock_derive
         a2 mock_units b2]
       b1 b2
  show ?thesis
    by simp
qed


subsection \<open>The conversion of token amounts\<close>

lemma pow2_powi: "pow2 e = 2 powi e"
  by (simp add: pow2_def power_int_def inverse_eq_divide power_one_over)

lemma pow2_pos: "0 < pow2 e"
  by (simp add: pow2_powi)

lemma pow2_less: "a < b \<Longrightarrow> pow2 a < pow2 b"
  by (simp add: pow2_powi power_int_strict_increasing)

lemma pow2_div: "pow2 a / pow2 b = pow2 (a - b)"
  by (simp add: pow2_powi power_int_diff)

lemma ilog2_le:
  assumes "0 < x"
  shows "pow2 (ilog2 x) \<le> x"
proof -
  obtain p q where pq: "quotient_of x = (p, q)"
    by (cases "quotient_of x")
  have q: "0 < q" and x: "x = of_int p / of_int q"
    using quotient_of_denom_pos[OF pq] quotient_of_div[OF pq] by auto
  have p: "0 < p"
    using assms q x by (simp add: zero_less_divide_iff)
  let ?d = "bitlen p - bitlen q"
  show ?thesis
  proof (cases "pow2 ?d \<le> x")
    case True
    then show ?thesis by (simp add: ilog2_def pq Let_def)
  next
    case False
    have bp: "1 \<le> bitlen p" and bq: "1 \<le> bitlen q"
      using p q by (simp_all add: bitlen_def floorlog_def)
    have "pow2 (bitlen p - 1) \<le> of_int p"
    proof -
      have "(2::int) ^ nat (bitlen p - 1) \<le> p"
        using bitlen_bounds[OF p] by simp
      then have "of_int ((2::int) ^ nat (bitlen p - 1)) \<le> (of_int p :: rat)"
        by (simp only: of_int_le_iff)
      then show ?thesis using bp by (simp add: pow2_def)
    qed
    moreover have "of_int q < pow2 (bitlen q)"
    proof -
      have "q < (2::int) ^ nat (bitlen q)"
        using bitlen_bounds[OF q] by simp
      then have "(of_int q :: rat) < of_int ((2::int) ^ nat (bitlen q))"
        by (simp only: of_int_less_iff)
      then show ?thesis using bq by (simp add: pow2_def)
    qed
    ultimately have "pow2 (bitlen p - 1) / pow2 (bitlen q) \<le> of_int p / of_int q"
      using p q pow2_pos[of "bitlen q"] pow2_pos[of "bitlen p - 1"]
      by (intro frac_le) auto
    then have "pow2 (?d - 1) \<le> x"
      by (simp add: pow2_div x algebra_simps)
    then show ?thesis using False by (simp add: ilog2_def pq Let_def)
  qed
qed


lemma round_half_even_ge: "of_int j \<le> y \<Longrightarrow> j \<le> round_half_even y"
proof -
  assume "of_int j \<le> y"
  then have "j \<le> \<lfloor>y\<rfloor>" by (simp add: le_floor_iff)
  then show ?thesis by (auto simp: round_half_even_def Let_def)
qed

lemma round_half_even_le: "y \<le> of_int j \<Longrightarrow> round_half_even y \<le> j"
proof -
  assume le: "y \<le> of_int j"
  have f: "\<lfloor>y\<rfloor> \<le> j" using le by (simp add: floor_le_iff)
  show ?thesis
  proof (cases "y - of_int \<lfloor>y\<rfloor> < 1 / 2")
    case True
    then show ?thesis using f by (simp add: round_half_even_def Let_def)
  next
    case False
    then have "of_int \<lfloor>y\<rfloor> < y" by simp
    then have "of_int \<lfloor>y\<rfloor> < (of_int j :: rat)" using le by simp
    then have "\<lfloor>y\<rfloor> < j" by (simp only: of_int_less_iff)
    then show ?thesis by (auto simp: round_half_even_def Let_def)
  qed
qed

lemma ilog2_less:
  assumes "0 < x" "x < pow2 l"
  shows "ilog2 x < l"
proof (rule ccontr)
  assume "\<not> ilog2 x < l"
  then have "pow2 l \<le> pow2 (ilog2 x)"
    using pow2_less[of l "ilog2 x"] by (cases "l = ilog2 x") auto
  with ilog2_le[OF assms(1)] assms(2) show False by simp
qed

lemma round_pos_grid:
  assumes "0 < x" "x < 2 ^ 53"
  shows "(of_int j \<le> x \<longrightarrow> of_int j \<le> round_pos x) \<and> (x \<le> of_int j \<longrightarrow> round_pos x \<le> of_int j)"
proof -
  define e where "e = max (ilog2 x - 52) (- 1074)"
  have "x < pow2 53" using assms(2) by (simp add: pow2_def)
  then have "ilog2 x < 53" by (rule ilog2_less[OF assms(1)])
  then have e: "e \<le> 0" by (simp add: e_def)
  define K :: int where "K = 2 ^ nat (- e)"
  have K: "0 < K" by (simp add: K_def)
  have pe: "pow2 e = 1 / of_int K"
    using e by (cases "e = 0") (auto simp: pow2_def K_def)
  define y where "y = x * of_int K"
  have rp: "round_pos x = of_int (round_half_even y) / of_int K"
    by (simp add: round_pos_def e_def[symmetric] Let_def pe y_def)
  show ?thesis
  proof (intro conjI impI)
    assume "of_int j \<le> x"
    then have "of_int (j * K) \<le> y" using K by (simp add: y_def)
    then have "j * K \<le> round_half_even y" by (rule round_half_even_ge)
    then have "(of_int (j * K) :: rat) \<le> of_int (round_half_even y)" by (simp only: of_int_le_iff)
    then show "of_int j \<le> round_pos x" using K by (simp add: rp pos_le_divide_eq)
  next
    assume "x \<le> of_int j"
    then have "y \<le> of_int (j * K)" using K by (simp add: y_def)
    then have "round_half_even y \<le> j * K" by (rule round_half_even_le)
    then have "(of_int (round_half_even y) :: rat) \<le> of_int (j * K)" by (simp only: of_int_le_iff)
    then show "round_pos x \<le> of_int j" using K by (simp add: rp pos_divide_le_eq)
  qed
qed

lemma pow2_big: "(2::rat) ^ 53 < pow2 1024"
  by (simp add: pow2_def)

lemma fl_grid:
  assumes "\<bar>x\<bar> < 2 ^ 53"
  shows "\<exists>v. fl x = Finite v \<and> (of_int j \<le> x \<longrightarrow> of_int j \<le> v) \<and> (x \<le> of_int j \<longrightarrow> v \<le> of_int j)"
proof -
  consider "x = 0" | "0 < x" | "x < 0" by linarith
  then show ?thesis
  proof cases
    case 1
    then show ?thesis by (simp add: fl_def)
  next
    case 2
    with assms have lt: "x < 2 ^ 53" by simp
    note g = round_pos_grid[OF 2 lt]
    have "round_pos x \<le> 2 ^ 53"
      using g[of "2 ^ 53"] lt by simp
    then have "\<not> pow2 1024 \<le> round_pos x" using pow2_big by simp
    then have "fl x = Finite (round_pos x)" using 2 by (simp add: fl_def Let_def)
    then show ?thesis using g[of j] by simp
  next
    case 3
    then have pos: "0 < - x" by simp
    from 3 assms have lt: "- x < 2 ^ 53" by simp
    note g = round_pos_grid[OF pos lt]
    have "round_pos (- x) \<le> 2 ^ 53"
      using g[of "2 ^ 53"] lt by simp
    then have "\<not> pow2 1024 \<le> round_pos (- x)" using pow2_big by simp
    then have "fl x = Finite (- round_pos (- x))" using 3 by (simp add: fl_def Let_def)
    then show ?thesis using g[of "- j"] by (auto simp: neg_le_iff_le minus_le_iff le_minus_iff)
  qed
qed

lemma pow_10_6: "math_pow 10 USDC_DECIMALS = Finite 1000000"
  by code_simp

lemma tokenAmount_Finite: "tokenAmount (Finite r) = math_floor (fl (r * 1000000))"
  by (simp add: tokenAmount_def pow_10_6)

lemma tokenAmount_bounds:
  assumes "\<bar>r * 10 ^ 6\<bar> < 2 ^ 53"
  shows "BigInt (tokenAmount (Finite r)) = Inr \<lfloor>r * 10 ^ 6\<rfloor>
       \<or> BigInt (tokenAmount (Finite r)) = Inr (\<lfloor>r * 10 ^ 6\<rfloor> + 1)"
proof -
  let ?x = "r * 10 ^ 6"
  from fl_grid[OF assms, of "\<lfloor>?x\<rfloor>"] obtain v where v: "fl ?x = Finite v" "of_int \<lfloor>?x\<rfloor> \<le> v"
    by auto
  have "?x \<le> of_int (\<lfloor>?x\<rfloor> + 1)"
    using floor_correct[of ?x] by (simp add: less_imp_le)
  with fl_grid[OF assms, of "\<lfloor>?x\<rfloor> + 1"] v(1) have v2: "v \<le> of_int (\<lfloor>?x\<rfloor> + 1)"
    by auto
  have "\<lfloor>?x\<rfloor> \<le> \<lfloor>v\<rfloor>" using v(2) by (simp add: le_floor_iff)
  moreover have "\<lfloor>v\<rfloor> \<le> \<lfloor>?x\<rfloor> + 1" using v2 by (simp add: floor_le_iff)
  ultimately have "\<lfloor>v\<rfloor> = \<lfloor>?x\<rfloor> \<or> \<lfloor>v\<rfloor> = \<lfloor>?x\<rfloor> + 1" by linarith
  moreover have "BigInt (tokenAmount (Finite r)) = Inr \<lfloor>v\<rfloor>"
    using v(1) by (simp add: tokenAmount_Finite)
  ultimately show ?thesis by auto
qed


text \<open>
  C8, counterexample. The number that the literal \<open>0.3\<close> denotes is
  \<open>5404319552844595 / 2^54\<close>, a little below three tenths. Its product with \<open>10^6\<close> is
  rounded by the multiplication to \<open>300000\<close>, so the build transfers 300000 units, while
  the floor of the exact product is 299999. Read on the decimal text instead: the literal
  \<open>8.2\<close> is converted to 8199999, and \<open>floor(8.2 * 10^6)\<close> is 8200000.
\<close>

theorem token_amount_rounds_counterexample:
  "fl (3 / 10) = Finite (5404319552844595 / 2 ^ 54)
   \<and> is_double (Finite (5404319552844595 / 2 ^ 54))
   \<and> BigInt (tokenAmount (Finite (5404319552844595 / 2 ^ 54))) = Inr 300000
   \<and> \<lfloor>(5404319552844595 / 2 ^ 54 :: rat) * 10 ^ 6\<rfloor> = 299999
   \<and> BigInt (tokenAmount (fl (82 / 10))) = Inr 8199999
   \<and> \<lfloor>(82 / 10 :: rat) * 10 ^ 6\<rfloor> = 8200000"
  by code_simp

text \<open>
  C8, as amended. The build converts an amount to the floor of the rounded product
  \<open>fl (a * 10^6)\<close>. For a product below \<open>2^53\<close> in magnitude this is
  \<open>floor (a * 10^6)\<close> or one more; it is \<open>floor (a * 10^6)\<close> when the product is a
  binary64 value itself. The amount 1.5 converts to 1500000 and the amount 0.0000001 to 0,
  both without error.
\<close>

theorem token_amount_floor_of_rounded_product:
  "(\<bar>r * 10 ^ 6\<bar> < 2 ^ 53 \<longrightarrow>
      (BigInt (tokenAmount (Finite r)) = Inr \<lfloor>r * 10 ^ 6\<rfloor>
       \<or> BigInt (tokenAmount (Finite r)) = Inr (\<lfloor>r * 10 ^ 6\<rfloor> + 1)))
   \<and> (fl (r * 10 ^ 6) = Finite (r * 10 ^ 6) \<longrightarrow>
      BigInt (tokenAmount (Finite r)) = Inr \<lfloor>r * 10 ^ 6\<rfloor>)
   \<and> fl (3 / 2) = Finite (3 / 2)
   \<and> BigInt (tokenAmount (Finite (3 / 2))) = Inr 1500000
   \<and> BigInt (tokenAmount (fl (1 / 10 ^ 7))) = Inr 0"
proof (intro conjI impI)
  assume "\<bar>r * 10 ^ 6\<bar> < 2 ^ 53"
  then show "BigInt (tokenAmount (Finite r)) = Inr \<lfloor>r * 10 ^ 6\<rfloor>
       \<or> BigInt (tokenAmount (Finite r)) = Inr (\<lfloor>r * 10 ^ 6\<rfloor> + 1)"
    by (rule tokenAmount_bounds)
next
  assume "fl (r * 10 ^ 6) = Finite (r * 10 ^ 6)"
  then show "BigInt (tokenAmount (Finite r)) = Inr \<lfloor>r * 10 ^ 6\<rfloor>"
    by (simp add: tokenAmount_Finite)
next
  show "fl (3 / 2) = Finite (3 / 2)"
    by code_simp
next
  show "BigInt (tokenAmount (Finite (3 / 2))) = Inr 1500000"
    by code_simp
next
  show "BigInt (tokenAmount (fl (1 / 10 ^ 7))) = Inr 0"
    by code_simp
qed

theorem token_amount_floor_of_rounded_product_witness:
  "\<bar>(5404319552844595 / 2 ^ 54 :: rat) * 10 ^ 6\<bar> < 2 ^ 53
   \<and> (BigInt (tokenAmount (Finite (5404319552844595 / 2 ^ 54))) = Inr \<lfloor>(5404319552844595 / 2 ^ 54 :: rat) * 10 ^ 6\<rfloor>
       \<or> BigInt (tokenAmount (Finite (5404319552844595 / 2 ^ 54))) = Inr (\<lfloor>(5404319552844595 / 2 ^ 54 :: rat) * 10 ^ 6\<rfloor> + 1))
   \<and> fl ((3 / 2) * 10 ^ 6) = Finite ((3 / 2) * 10 ^ 6)
   \<and> BigInt (tokenAmount (Finite (3 / 2))) = Inr \<lfloor>(3 / 2 :: rat) * 10 ^ 6\<rfloor>"
proof -
  have h1: "\<bar>(5404319552844595 / 2 ^ 54 :: rat) * 10 ^ 6\<bar> < 2 ^ 53"
    by simp
  have h2: "fl ((3 / 2) * 10 ^ 6) = Finite ((3 / 2) * 10 ^ 6)"
    by code_simp
  from token_amount_floor_of_rounded_product[of "5404319552844595 / 2 ^ 54"] h1
       token_amount_floor_of_rounded_product[of "3 / 2"] h2
  show ?thesis
    by blast
qed


subsection \<open>The identity round trip\<close>

declare digits.simps [simp del]

lemma value_of_snoc [simp]: "value_of b (ds @ [d]) = value_of b ds * b + d"
  by (simp add: value_of_def)

lemma value_of_Nil [simp]: "value_of b [] = 0"
  by (simp add: value_of_def)

lemma digits_range: "2 \<le> b \<Longrightarrow> d \<in> set (digits b n) \<Longrightarrow> 0 \<le> d \<and> d < b"
proof (induction b n rule: digits.induct)
  case (1 b n)
  then show ?case
    by (subst (asm) (2) digits.simps) (auto split: if_splits)
qed

lemma value_of_digits: "2 \<le> b \<Longrightarrow> 0 \<le> n \<Longrightarrow> value_of b (digits b n) = n"
proof (induction b n rule: digits.induct)
  case (1 b n)
  show ?case
  proof (cases "n = 0")
    case True
    then show ?thesis by (subst digits.simps) simp
  next
    case False
    with 1 have "value_of b (digits b (n div b)) = n div b"
      by (simp add: pos_imp_zdiv_nonneg_iff)
    with 1 False show ?thesis
      by (subst digits.simps) simp
  qed
qed

lemma digits_hd: "2 \<le> b \<Longrightarrow> digits b n \<noteq> [] \<Longrightarrow> hd (digits b n) \<noteq> 0"
proof (induction b n rule: digits.induct)
  case (1 b n)
  from "1.prems"(2) have n: "0 < n"
    by (subst (asm) digits.simps) (auto split: if_splits)
  have eq: "digits b n = digits b (n div b) @ [n mod b]"
    using n "1.prems"(1) by (subst digits.simps) simp
  show ?case
  proof (cases "digits b (n div b) = []")
    case True
    have "n div b = 0"
    proof (rule ccontr)
      assume "n div b \<noteq> 0"
      then have "0 < n div b" using n "1.prems"(1) by (simp add: pos_imp_zdiv_pos_iff order.strict_iff_order pos_imp_zdiv_nonneg_iff)
      then have "digits b (n div b) \<noteq> []"
        using "1.prems"(1) by (subst digits.simps) simp
      with True show False by simp
    qed
    then have "n mod b = n" using n "1.prems"(1)
      by (metis add_cancel_left_left mult_zero_right mult_div_mod_eq)
    with True eq n show ?thesis by simp
  next
    case False
    with "1.IH" n "1.prems"(1) have "hd (digits b (n div b)) \<noteq> 0" by simp
    with False eq show ?thesis by simp
  qed
qed

lemma value_of_pos:
  "2 \<le> b \<Longrightarrow> \<forall>d\<in>set ds. 0 \<le> d \<Longrightarrow> ds \<noteq> [] \<Longrightarrow> hd ds \<noteq> 0 \<Longrightarrow> 0 < value_of b ds"
proof (induction ds rule: rev_induct)
  case Nil
  then show ?case by simp
next
  case (snoc d ds)
  show ?case
  proof (cases "ds = []")
    case True
    with snoc.prems show ?thesis by (simp add: value_of_def)
  next
    case False
    with snoc have "0 < value_of b ds" by simp
    moreover have "0 \<le> d" using snoc.prems by simp
    ultimately show ?thesis using snoc.prems(1)
      by (simp add: add_pos_nonneg)
  qed
qed

lemma digits_value_of:
  "2 \<le> b \<Longrightarrow> \<forall>d\<in>set ds. 0 \<le> d \<and> d < b \<Longrightarrow> ds = [] \<or> hd ds \<noteq> 0 \<Longrightarrow> digits b (value_of b ds) = ds"
proof (induction ds rule: rev_induct)
  case Nil
  then show ?case by (subst digits.simps) simp
next
  case (snoc d ds)
  have d: "0 \<le> d" "d < b" using snoc.prems by auto
  have ih: "digits b (value_of b ds) = ds"
    using snoc by (cases ds) auto
  have pos: "0 < value_of b (ds @ [d])"
    using snoc.prems by (intro value_of_pos) auto
  have "(value_of b ds * b + d) div b = value_of b ds" "(value_of b ds * b + d) mod b = d"
    using d snoc.prems(1) by (simp_all add: div_pos_pos_trivial)
  with pos ih snoc.prems(1) show ?case
    by (subst digits.simps) simp
qed


lemma value_of_zeros: "value_of b (replicate k 0 @ ds) = value_of b ds"
  by (induction k) (simp_all add: value_of_def)

lemma int_of_bytes_value: "int_of_bytes bs = value_of 256 (map uint bs)"
  by (simp add: int_of_bytes_def value_of_def foldl_map)

lemma split_zeros:
  "bs = replicate (length (takeWhile (\<lambda>b. b = 0) bs)) (0::8 word) @ dropWhile (\<lambda>b. b = 0) bs"
proof -
  have "takeWhile (\<lambda>b. b = 0) bs = replicate (length (takeWhile (\<lambda>b. b = 0) bs)) (0::8 word)"
    by (induction bs) auto
  then show ?thesis
    by (metis takeWhile_dropWhile_id)
qed

lemma digits_int_of_bytes:
  "map of_int (digits 256 (int_of_bytes bs)) = dropWhile (\<lambda>b. b = 0) (bs :: bytes)"
proof -
  let ?bs' = "dropWhile (\<lambda>b. b = 0) bs"
  have "int_of_bytes bs = value_of 256 (map uint (replicate (length (takeWhile (\<lambda>b. b = 0) bs)) 0 @ ?bs'))"
    using split_zeros[of bs] by (simp only: int_of_bytes_value flip: split_zeros)
  then have v: "int_of_bytes bs = value_of 256 (map uint ?bs')"
    by (simp add: value_of_zeros)
  have range: "\<forall>d\<in>set (map uint ?bs'). 0 \<le> d \<and> d < 256"
  proof
    fix d assume "d \<in> set (map uint ?bs')"
    then obtain w :: "8 word" where "d = uint w" by auto
    then show "0 \<le> d \<and> d < 256"
      using uint_lt2p[of w] by simp
  qed
  have hd: "map uint ?bs' = [] \<or> hd (map uint ?bs') \<noteq> 0"
  proof (cases ?bs')
    case Nil
    then show ?thesis by simp
  next
    case (Cons w ws)
    then have "w \<noteq> 0" using hd_dropWhile[of "\<lambda>b. b = 0" bs] by auto
    then show ?thesis using Cons by (simp add: uint_0_iff)
  qed
  have "digits 256 (int_of_bytes bs) = map uint ?bs'"
    unfolding v by (rule digits_value_of) (use range hd in auto)
  then show ?thesis by (simp add: comp_def)
qed

lemma index_of_nth: "distinct xs \<Longrightarrow> i < length xs \<Longrightarrow> index_of xs (xs ! i) = int i"
proof (induction xs arbitrary: i)
  case Nil
  then show ?case by simp
next
  case (Cons x xs)
  then show ?case by (cases i) auto
qed

lemma alphabet58_length: "length alphabet58 = 58"
  by (simp add: alphabet58_def)

lemma alphabet58_distinct: "distinct alphabet58"
  by (simp add: alphabet58_def)

lemma alphabet58_0: "alphabet58 ! 0 = CHR ''1''"
  by (simp add: alphabet58_def)

lemma base58_round_trip: "base58_decode (base58_encode bs) = Inr bs"
proof -
  define z where "z = length (takeWhile (\<lambda>b. b = 0) bs)"
  define ds where "ds = digits 58 (int_of_bytes bs)"
  define al where "al = (\<lambda>d. alphabet58 ! nat d)"
  have enc: "base58_encode bs = replicate z (CHR ''1'') @ map al ds"
    by (simp add: base58_encode_def z_def ds_def al_def)
  have nonneg: "0 \<le> int_of_bytes bs"
  proof -
    have "\<forall>d\<in>set (map uint bs). 0 \<le> d" by auto
    then have "0 \<le> value_of 256 (map uint bs)"
      by (induction bs rule: rev_induct) auto
    then show ?thesis by (simp add: int_of_bytes_value)
  qed
  have range: "\<forall>d\<in>set ds. 0 \<le> d \<and> d < 58"
    using digits_range[of 58 _ "int_of_bytes bs"] by (auto simp: ds_def)
  have idx: "map (index_of alphabet58) (map al ds) = ds"
  proof (rule map_idI[THEN trans[OF map_map]])
    fix d assume "d \<in> set ds"
    with range have "0 \<le> d" "nat d < 58" by auto
    then show "(index_of alphabet58 \<circ> al) d = d"
      by (simp add: al_def index_of_nth alphabet58_distinct alphabet58_length)
  qed
  have mem: "list_all (\<lambda>ch. ch \<in> set alphabet58) (base58_encode bs)"
  proof -
    have "CHR ''1'' \<in> set alphabet58"
      using nth_mem[of 0 alphabet58] by (simp add: alphabet58_0 alphabet58_length)
    moreover have "al d \<in> set alphabet58" if "d \<in> set ds" for d
      using range that by (auto simp: al_def alphabet58_length intro!: nth_mem)
    ultimately show ?thesis
      by (auto simp: enc list_all_iff)
  qed
  have no1: "takeWhile (\<lambda>ch. ch = CHR ''1'') (map al ds) = []"
  proof (cases ds)
    case Nil
    then show ?thesis by simp
  next
    case (Cons d ds')
    have "hd ds \<noteq> 0" using digits_hd[of 58 "int_of_bytes bs"] Cons by (simp add: ds_def)
    with Cons range have d: "0 < d" "nat d < 58" by auto
    have "alphabet58 ! nat d \<noteq> alphabet58 ! 0"
      using d by (simp add: nth_eq_iff_index_eq alphabet58_distinct alphabet58_length)
    then show ?thesis using Cons by (simp add: al_def alphabet58_0)
  qed
  have "takeWhile (\<lambda>ch. ch = CHR ''1'') (replicate z (CHR ''1'') @ map al ds)
        = replicate z (CHR ''1'') @ takeWhile (\<lambda>ch. ch = CHR ''1'') (map al ds)"
    by (rule takeWhile_append2) simp
  then have tw: "length (takeWhile (\<lambda>ch. ch = CHR ''1'') (base58_encode bs)) = z"
    by (simp add: enc no1)
  have "foldl (\<lambda>a ch. a * 58 + index_of alphabet58 ch) 0 (base58_encode bs)
        = value_of 58 (map (index_of alphabet58) (base58_encode bs))"
    by (simp add: value_of_def foldl_map)
  also have "value_of 58 (map (index_of alphabet58) (base58_encode bs)) = value_of 58 ds"
  proof -
    have "index_of alphabet58 (CHR ''1'') = 0"
      by (simp add: alphabet58_def)
    then have "map (index_of alphabet58) (base58_encode bs) = replicate z 0 @ ds"
      using idx by (simp add: enc)
    then show ?thesis
      by (simp add: value_of_zeros)
  qed
  also have "\<dots> = int_of_bytes bs"
    unfolding ds_def using nonneg by (intro value_of_digits) auto
  finally have num: "foldl (\<lambda>a ch. a * 58 + index_of alphabet58 ch) 0 (base58_encode bs) = int_of_bytes bs" .
  show ?thesis
    using mem split_zeros[of bs]
    by (simp add: base58_decode_def tw num digits_int_of_bytes z_def)
qed


text \<open>
  C9. Provided the base-58 codec gives back the secret key of the generated keypair and
  \<open>Keypair.fromSecretKey\<close> rebuilds that keypair from its secret key, restoring from the
  encoded secret of a created wallet yields the created wallet itself: the same public
  address, the same keypair with the same raw secret-key bytes.
\<close>

theorem identity_round_trip:
  assumes "bs58_decode lib (bs58_encode lib (kp_secretKey (generate lib seed)))
             = Inr (kp_secretKey (generate lib seed))"
      and "fromSecretKey lib (kp_secretKey (generate lib seed)) = Inr (generate lib seed)"
  shows "loadWalletFromSecretKey lib (secretKey (createWallet lib seed)) = Inr (createWallet lib seed)
       \<and> (\<exists>w. loadWalletFromSecretKey lib (secretKey (createWallet lib seed)) = Inr w
              \<and> publicKey w = publicKey (createWallet lib seed)
              \<and> kp_secretKey (keypair w) = kp_secretKey (keypair (createWallet lib seed)))"
  using assms by (simp add: loadWalletFromSecretKey_def createWallet_def Let_def)

lemma mock_wallet_created: "createWallet mock_lib mock_seed = mock_wallet"
  by code_simp

theorem identity_round_trip_witness:
  "loadWalletFromSecretKey mock_lib (secretKey mock_wallet) = Inr mock_wallet
   \<and> kp_secretKey (keypair mock_wallet) = mock_seed @ rev mock_seed"
proof -
  have h1: "bs58_decode mock_lib (bs58_encode mock_lib (kp_secretKey (generate mock_lib mock_seed)))
             = Inr (kp_secretKey (generate mock_lib mock_seed))"
    by (simp add: mock_lib_def base58_round_trip)
  have h2: "fromSecretKey mock_lib (kp_secretKey (generate mock_lib mock_seed))
             = Inr (generate mock_lib mock_seed)"
    by (simp add: mock_lib_def mock_seed_def)
  from identity_round_trip[OF h1 h2] show ?thesis
    by (simp add: mock_wallet_created) (simp add: mock_wallet_def)
qed

end
